theory Spec2Isabelle
  imports Main "HOL-Library.Sublist" "HOL-Library.Word"
begin

section \<open>The libkv meta-plugin (plugins/meta/libkv/libkv.go)\<close>

text \<open>
  The plugin has two entry points, \<open>cmdAdd\<close> (setup) and \<open>cmdDel\<close> (teardown).
  Both are sequential Go functions that call into libraries: \<open>encoding/json\<close>,
  \<open>docker/libkv\<close>, \<open>os\<close>, \<open>io/ioutil\<close>, \<open>path/filepath\<close>, and the CNI packages
  \<open>invoke\<close>, \<open>skel\<close> and \<open>types\<close>. None of these libraries is part of the file
  under verification, so each library call is a field of the record \<open>env\<close> below,
  and the functions of \<open>libkv.go\<close> are translated line by line on top of it.

  The effects of the plugin are made explicit in a \<open>world\<close>: the scratch files
  under the state directory, the state of the host that the child plugins work
  on, and the sequence of effectful calls made so far.
\<close>

subsection \<open>Data\<close>

type_synonym bytes = string

text \<open>A Go \<open>error\<close> value, identified by its message.\<close>

datatype error = Error (msg: string)

text \<open>
  The dynamic types that \<open>encoding/json\<close> stores into an \<open>interface{}\<close>:
  \<open>nil\<close>, \<open>bool\<close>, \<open>float64\<close> (its 64 bits), \<open>string\<close>, \<open>[]interface{}\<close> and
  \<open>map[string]interface{}\<close>.
\<close>

datatype gval =
    GNil
  | GBool bool
  | GFloat64 "64 word"
  | GString string
  | GSlice "gval list"
  | GMap "(string \<times> gval) list"

text \<open>
  One element of \<open>netconfs []map[string]interface{}\<close>: \<open>None\<close> is the nil map,
  \<open>Some kvs\<close> a map with the entries \<open>kvs\<close>.
\<close>

type_synonym netconf = "(string \<times> gval) list option"

text \<open>\<open>type LibKvConf struct\<close>; \<open>store.Backend\<close> is a string type.\<close>

record LibKvConf =
  StoreBackend :: string
  Uri :: string
  BasePath :: string
  StoreConfig :: "(string \<times> string) list"

text \<open>\<open>skel.CmdArgs\<close>, as handed to both entry points.\<close>

record CmdArgs =
  ContainerID :: string
  Netns :: string
  IfName :: string
  Args :: string
  Path :: string
  StdinData :: bytes

text \<open>
  \<open>store.Config\<close>: \<open>cmdAdd\<close> sets \<open>ConnectionTimeout\<close> (a \<open>time.Duration\<close>, in
  nanoseconds) and leaves every other field at its zero value.
\<close>

record store_Config =
  ConnectionTimeout :: int

definition time_Second :: int where
  "time_Second = 1000000000"

text \<open>The effectful calls, in the order in which they are made.\<close>

datatype 'r event =
    EvNewStore string "string list" store_Config
  | EvGet string
  | EvWriteFile string bytes
  | EvRemove string
  | is_EvDelegateAdd: EvDelegateAdd string bytes
  | is_EvDelegateDel: EvDelegateDel string bytes
  | EvPrint "'r option"

record ('h, 'r) world =
  files :: "string \<rightharpoonup> bytes"
  host :: 'h
  trace :: "'r event list"

text \<open>
  How a Go function call ends: it returns a value, it returns a non-nil error,
  it panics (the failed type assertion), or the process exits in \<open>log.Fatal\<close>.
\<close>

datatype 'a outcome =
    is_Done: Done 'a
  | is_Failed: Failed error
  | is_Panic: Panic
  | is_Fatal: Fatal string

subsection \<open>The library calls\<close>

text \<open>
  \<^item> \<open>json_Unmarshal_LibKvConf b\<close>: \<open>json.Unmarshal(b, config)\<close> on a zero
    \<open>LibKvConf\<close>; the error, or the struct as filled in.
  \<^item> \<open>json_Unmarshal_netconfs b\<close>: \<open>json.Unmarshal(b, &netconfs)\<close>.
  \<^item> \<open>json_Marshal conf\<close>: \<open>json.Marshal(conf)\<close>.
  \<^item> \<open>libkv_NewStore\<close>, \<open>store_Get\<close>: the store connection and \<open>kv.Get(key)\<close>,
    which yields \<open>pair.Value\<close>.
  \<^item> \<open>os_MkdirAll path perm\<close> and \<open>WriteFile_fault path data perm\<close>: whether the
    host refuses to create the directory or to write the file.
  \<^item> \<open>ReadFile_fault path\<close>: the error of reading a path that holds something
    other than a scratch file, such as \<open>read /var/lib/cni/libkv: is a directory\<close>;
    \<open>None\<close> where the only thing that can be wrong is that nothing is there.
  \<^item> \<open>Remove_fault path\<close>: whether the host refuses \<open>os.Remove(path)\<close>, as it
    does on a directory that is not empty or on a read-only file system.
  \<^item> \<open>filepath_Join\<close>: \<open>filepath.Join\<close> of two elements.
  \<^item> \<open>invoke_DelegateAdd\<close>, \<open>invoke_DelegateDel\<close>: running the child plugin of
    the given type on a configuration, which changes the host.
  \<^item> \<open>Result_Print\<close>: \<open>(*types.Result).Print\<close>, called on the pointer \<open>result\<close>
    (\<open>None\<close> is the nil pointer).
\<close>

record ('kv, 'h, 'r) env =
  json_Unmarshal_LibKvConf :: "bytes \<Rightarrow> error + LibKvConf"
  json_Unmarshal_netconfs :: "bytes \<Rightarrow> error + netconf list"
  json_Marshal :: "netconf \<Rightarrow> error + bytes"
  libkv_NewStore :: "string \<Rightarrow> string list \<Rightarrow> store_Config \<Rightarrow> error + 'kv"
  store_Get :: "'kv \<Rightarrow> string \<Rightarrow> error + bytes"
  os_MkdirAll :: "string \<Rightarrow> nat \<Rightarrow> error option"
  WriteFile_fault :: "string \<Rightarrow> bytes \<Rightarrow> nat \<Rightarrow> error option"
  ReadFile_fault :: "string \<Rightarrow> error option"
  Remove_fault :: "string \<Rightarrow> error option"
  filepath_Join :: "string \<Rightarrow> string \<Rightarrow> string"
  invoke_DelegateAdd :: "string \<Rightarrow> bytes \<Rightarrow> 'h \<Rightarrow> (error + 'r) \<times> 'h"
  invoke_DelegateDel :: "string \<Rightarrow> bytes \<Rightarrow> 'h \<Rightarrow> error option \<times> 'h"
  Result_Print :: "'r option \<Rightarrow> error option"

text \<open>
  \<open>strings.HasSuffix(s, suffix)\<close> is
  \<open>len(s) >= len(suffix) && s[len(s)-len(suffix):] == suffix\<close>.
\<close>

definition strings_HasSuffix :: "string \<Rightarrow> string \<Rightarrow> bool" where
  "strings_HasSuffix s suf \<longleftrightarrow>
     length suf \<le> length s \<and> drop (length s - length suf) s = suf"

text \<open>The verb \<open>%d\<close> of \<open>fmt\<close> on a slice index.\<close>

fun fmt_d :: "nat \<Rightarrow> string" where
  "fmt_d n =
     (if n < 10 then [''0123456789'' ! n]
      else fmt_d (n div 10) @ [''0123456789'' ! (n mod 10)])"

declare fmt_d.simps [simp del]

text \<open>
  The scratch files. \<open>files w path = Some data\<close> says that \<open>path\<close> holds a regular
  file with content \<open>data\<close>.
  \<^item> \<open>ioutil.WriteFile\<close> creates or replaces the file unless the host refuses.
  \<^item> \<open>ioutil.ReadFile\<close> returns the content of a regular file; where there is
    none it fails, with the error of the host if something else is at the path
    and with the error of a file that does not exist otherwise.
  \<^item> \<open>os.Remove\<close> deletes the file unless the host refuses; it returns the
    host's error, or nil.
\<close>

definition ioutil_WriteFile ::
  "('kv, 'h, 'r) env \<Rightarrow> string \<Rightarrow> bytes \<Rightarrow> nat \<Rightarrow> ('h, 'r) world \<Rightarrow> error option \<times> ('h, 'r) world" where
  "ioutil_WriteFile E path data perm w =
     (case WriteFile_fault E path data perm of
        Some err \<Rightarrow> (Some err, w)
      | None \<Rightarrow>
          (None, w\<lparr>files := (files w)(path \<mapsto> data),
                   trace := trace w @ [EvWriteFile path data]\<rparr>))"

definition not_exist :: "string \<Rightarrow> error" where
  "not_exist path = Error (''open '' @ path @ '': no such file or directory'')"

definition ioutil_ReadFile ::
  "('kv, 'h, 'r) env \<Rightarrow> string \<Rightarrow> ('h, 'r) world \<Rightarrow> error + bytes" where
  "ioutil_ReadFile E path w =
     (case files w path of
        Some data \<Rightarrow> Inr data
      | None \<Rightarrow>
          (case ReadFile_fault E path of
             Some err \<Rightarrow> Inl err
           | None \<Rightarrow> Inl (not_exist path)))"

definition os_Remove ::
  "('kv, 'h, 'r) env \<Rightarrow> string \<Rightarrow> ('h, 'r) world \<Rightarrow> error option \<times> ('h, 'r) world" where
  "os_Remove E path w =
     (case Remove_fault E path of
        Some err \<Rightarrow> (Some err, w)
      | None \<Rightarrow>
          (None, w\<lparr>files := (files w)(path := None),
                   trace := trace w @ [EvRemove path]\<rparr>))"

subsection \<open>The functions of libkv.go\<close>

definition stateDir :: string where
  "stateDir = ''/var/lib/cni/libkv''"

text \<open>The octal file modes \<open>0700\<close> and \<open>0600\<close>.\<close>

definition perm_0700 :: nat where
  "perm_0700 = 7 * 64"

definition perm_0600 :: nat where
  "perm_0600 = 6 * 64"

definition loadPluginConfig :: "('kv, 'h, 'r) env \<Rightarrow> bytes \<Rightarrow> error + LibKvConf" where
  "loadPluginConfig E bytes =
     (case json_Unmarshal_LibKvConf E bytes of
        Inl err \<Rightarrow> Inl (Error (''failed to load libkv config: '' @ msg err))
      | Inr config \<Rightarrow>
          Inr (if \<not> strings_HasSuffix (BasePath config) ''/''
               then config\<lparr>BasePath := BasePath config @ ''/''\<rparr>
               else config))"

definition saveScratchNetConf ::
  "('kv, 'h, 'r) env \<Rightarrow> string \<Rightarrow> bytes \<Rightarrow> ('h, 'r) world \<Rightarrow> error option \<times> ('h, 'r) world" where
  "saveScratchNetConf E containerID netconf w =
     (case os_MkdirAll E stateDir perm_0700 of
        Some err \<Rightarrow> (Some err, w)
      | None \<Rightarrow>
          (let path = filepath_Join E stateDir containerID
           in ioutil_WriteFile E path netconf perm_0600 w))"

text \<open>
  \<open>defer os.Remove(path)\<close> runs after \<open>ioutil.ReadFile(path)\<close> has produced the
  return values, and nothing looks at what \<open>os.Remove\<close> returns.
\<close>

definition consumeScratchNetConf ::
  "('kv, 'h, 'r) env \<Rightarrow> string \<Rightarrow> ('h, 'r) world \<Rightarrow> (error + bytes) \<times> ('h, 'r) world" where
  "consumeScratchNetConf E containerID w =
     (let path = filepath_Join E stateDir containerID;
          r = ioutil_ReadFile E path w
      in case os_Remove E path w of (discarded, w') \<Rightarrow> (r, w'))"

text \<open>
  \<open>conf["type"].(string)\<close>: indexing a map (nil or not) with an absent key gives
  the nil interface; the type assertion panics unless the value is a string.
  \<open>None\<close> is the panic.
\<close>

definition map_index :: "netconf \<Rightarrow> string \<Rightarrow> gval" where
  "map_index conf k =
     (case conf of
        None \<Rightarrow> GNil
      | Some kvs \<Rightarrow> (case map_of kvs k of None \<Rightarrow> GNil | Some v \<Rightarrow> v))"

fun assert_string :: "gval \<Rightarrow> string option" where
  "assert_string (GString s) = Some s"
| "assert_string _ = None"

definition conf_type :: "netconf \<Rightarrow> string option" where
  "conf_type conf = assert_string (map_index conf ''type'')"

text \<open>
  The loop of \<open>cmdAdd\<close>, from \<open>index\<close> on; \<open>result\<close> is the variable of that name
  (a pointer, nil at first).
\<close>

fun cmdAdd_loop ::
  "('kv, 'h, 'r) env \<Rightarrow> nat \<Rightarrow> netconf list \<Rightarrow> 'r option \<Rightarrow> ('h, 'r) world
     \<Rightarrow> 'r option outcome \<times> ('h, 'r) world" where
  "cmdAdd_loop E index [] result w = (Done result, w)"
| "cmdAdd_loop E index (conf # rest) result w =
     (case json_Marshal E conf of
        Inl err \<Rightarrow>
          (Failed (Error (''Could not marshal subconfig at index '' @ fmt_d index
                          @ '': '' @ msg err)), w)
      | Inr confBytes \<Rightarrow>
          (case conf_type conf of
             None \<Rightarrow> (Panic, w)
           | Some t \<Rightarrow>
               (case invoke_DelegateAdd E t confBytes (host w) of
                  (r, h) \<Rightarrow>
                    (let w' = w\<lparr>host := h, trace := trace w @ [EvDelegateAdd t confBytes]\<rparr>
                     in case r of
                          Inl err \<Rightarrow> (Failed err, w')
                        | Inr res \<Rightarrow>
                            cmdAdd_loop E (Suc index) rest
                              (if index = 0 then Some res else result) w'))))"

definition cmdAdd ::
  "('kv, 'h, 'r) env \<Rightarrow> CmdArgs \<Rightarrow> ('h, 'r) world \<Rightarrow> unit outcome \<times> ('h, 'r) world" where
  "cmdAdd E args w =
     (case loadPluginConfig E (StdinData args) of
        Inl err \<Rightarrow> (Failed err, w)
      | Inr config \<Rightarrow>
          (let cfg = \<lparr>ConnectionTimeout = 10 * time_Second\<rparr>;
               w1 = w\<lparr>trace := trace w @ [EvNewStore (StoreBackend config) [Uri config] cfg]\<rparr>
           in case libkv_NewStore E (StoreBackend config) [Uri config] cfg of
                Inl err \<Rightarrow> (Fatal (''Cannot create %s store'' @ StoreBackend config), w1)
              | Inr kv \<Rightarrow>
                  (let key = BasePath config @ ContainerID args;
                       w2 = w1\<lparr>trace := trace w1 @ [EvGet key]\<rparr>
                   in case store_Get E kv key of
                        Inl err \<Rightarrow>
                          (Failed (Error (''Error trying accessing value at key: '' @ key)), w2)
                      | Inr val \<Rightarrow>
                          (case json_Unmarshal_netconfs E val of
                             Inl err \<Rightarrow>
                               (Failed (Error (''Could not unmarshal store value: '' @ msg err)), w2)
                           | Inr netconfs \<Rightarrow>
                               (case saveScratchNetConf E (ContainerID args) val w2 of
                                  (Some err, w3) \<Rightarrow>
                                    (Failed (Error (''Could not save generated cni configs: ''
                                                    @ msg err)), w3)
                                | (None, w3) \<Rightarrow>
                                    (case cmdAdd_loop E 0 netconfs None w3 of
                                       (Done result, w4) \<Rightarrow>
                                         (case Result_Print E result of
                                            None \<Rightarrow> Done ()
                                          | Some err \<Rightarrow> Failed err,
                                          w4\<lparr>trace := trace w4 @ [EvPrint result]\<rparr>)
                                     | (Failed err, w4) \<Rightarrow> (Failed err, w4)
                                     | (Panic, w4) \<Rightarrow> (Panic, w4)
                                     | (Fatal m, w4) \<Rightarrow> (Fatal m, w4)))))))"

text \<open>The loop of \<open>cmdDel\<close>.\<close>

fun cmdDel_loop ::
  "('kv, 'h, 'r) env \<Rightarrow> nat \<Rightarrow> netconf list \<Rightarrow> ('h, 'r) world
     \<Rightarrow> unit outcome \<times> ('h, 'r) world" where
  "cmdDel_loop E index [] w = (Done (), w)"
| "cmdDel_loop E index (conf # rest) w =
     (case json_Marshal E conf of
        Inl err \<Rightarrow>
          (Failed (Error (''Could not marshal subconfig at index '' @ fmt_d index
                          @ '': '' @ msg err)), w)
      | Inr confBytes \<Rightarrow>
          (case conf_type conf of
             None \<Rightarrow> (Panic, w)
           | Some t \<Rightarrow>
               (case invoke_DelegateDel E t confBytes (host w) of
                  (r, h) \<Rightarrow>
                    (let w' = w\<lparr>host := h, trace := trace w @ [EvDelegateDel t confBytes]\<rparr>
                     in case r of
                          Some err \<Rightarrow> (Failed err, w')
                        | None \<Rightarrow> cmdDel_loop E (Suc index) rest w'))))"

definition cmdDel ::
  "('kv, 'h, 'r) env \<Rightarrow> CmdArgs \<Rightarrow> ('h, 'r) world \<Rightarrow> unit outcome \<times> ('h, 'r) world" where
  "cmdDel E args w =
     (case consumeScratchNetConf E (ContainerID args) w of
        (Inl err, w1) \<Rightarrow> (Failed err, w1)
      | (Inr netconfBytes, w1) \<Rightarrow>
          (case json_Unmarshal_netconfs E netconfBytes of
             Inl err \<Rightarrow> (Failed (Error (''failed to parse netconf: '' @ msg err)), w1)
           | Inr netconfs \<Rightarrow> cmdDel_loop E 0 netconfs w1))"

subsection \<open>Reading a trace\<close>

text \<open>The events that a run from world \<open>w\<close> to world \<open>w'\<close> has added.\<close>

definition events_since :: "('h, 'r) world \<Rightarrow> ('h, 'r) world \<Rightarrow> 'r event list" where
  "events_since w w' = drop (length (trace w)) (trace w')"

text \<open>The child plugin types invoked for attach, and for detach, in order.\<close>

fun added_types :: "'r event list \<Rightarrow> string list" where
  "added_types [] = []"
| "added_types (EvDelegateAdd t b # es) = t # added_types es"
| "added_types (e # es) = added_types es"

fun deleted_types :: "'r event list \<Rightarrow> string list" where
  "deleted_types [] = []"
| "deleted_types (EvDelegateDel t b # es) = t # deleted_types es"
| "deleted_types (e # es) = deleted_types es"

text \<open>
  The world in which the loop of \<open>cmdAdd\<close> starts when nothing before it has
  failed: the store has been opened and read, and the scratch file is written.
\<close>

definition loop_start ::
  "('kv, 'h, 'r) env \<Rightarrow> CmdArgs \<Rightarrow> LibKvConf \<Rightarrow> bytes \<Rightarrow> ('h, 'r) world \<Rightarrow> ('h, 'r) world" where
  "loop_start E args config val w =
     w\<lparr>files := (files w)(filepath_Join E stateDir (ContainerID args) \<mapsto> val),
       trace := trace w @
         [EvNewStore (StoreBackend config) [Uri config]
            \<lparr>ConnectionTimeout = 10 * time_Second\<rparr>,
          EvGet (BasePath config @ ContainerID args),
          EvWriteFile (filepath_Join E stateDir (ContainerID args)) val]\<rparr>"

text \<open>The store keys read, in order.\<close>

fun used_keys :: "'r event list \<Rightarrow> string list" where
  "used_keys [] = []"
| "used_keys (EvGet k # es) = k # used_keys es"
| "used_keys (e # es) = used_keys es"

text \<open>
  What the child plugins recorded in a trace do to the host when they are run
  one after the other, each on the host state that the one before has left.
\<close>

fun replay :: "('kv, 'h, 'r) env \<Rightarrow> 'r event list \<Rightarrow> 'h \<Rightarrow> 'h" where
  "replay E [] h = h"
| "replay E (EvDelegateAdd t b # es) h = replay E es (snd (invoke_DelegateAdd E t b h))"
| "replay E (EvDelegateDel t b # es) h = replay E es (snd (invoke_DelegateDel E t b h))"
| "replay E (e # es) h = replay E es h"

text \<open>The values handed to \<open>Print\<close>, in order.\<close>

fun printed :: "'r event list \<Rightarrow> 'r option list" where
  "printed [] = []"
| "printed (EvPrint r # es) = r # printed es"
| "printed (e # es) = printed es"

subsection \<open>A concrete host: the scenario of Documentation/libkv.md\<close>

text \<open>
  An etcd store at \<open>localhost:2379\<close> with the documented list under
  \<open>cni/testcontainer\<close>, an empty list under \<open>cni/empty\<close>, a list whose second
  entry has no \<open>type\<close> under \<open>cni/untyped\<close>, and a list that names \<open>bridge\<close> twice
  under \<open>cni/twice\<close>. The JSON library is tabulated on the texts that occur. A
  child plugin refuses to attach a type that is attached already; its result
  names the type. The state directory holds the records of other containers, so
  the host refuses to remove it, and reading it fails as reading a directory
  does.
\<close>

definition libkv_conf_text :: bytes where
  \<open>libkv_conf_text = ''{"name":"libkv","type":"libkv","storeBackend":"etcd","uri":"localhost:2379","basePath":"cni/","storeConfig":{"connectionTimeout":"30"}}''\<close>

definition libkv_conf_noslash_text :: bytes where
  \<open>libkv_conf_noslash_text = ''{"storeBackend":"etcd","uri":"localhost:2379","basePath":"cni"}''\<close>

definition netconfs_text :: bytes where
  \<open>netconfs_text = ''[{"name":"mynet","type":"bridge","bridge":"cni2"},{"type":"loopback"}]''\<close>

definition untyped_text :: bytes where
  \<open>untyped_text = ''[{"type":"bridge"},{"name":"lo"},{"type":"loopback"}]''\<close>

definition twice_text :: bytes where
  \<open>twice_text = ''[{"type":"bridge"},{"type":"bridge"},{"type":"loopback"}]''\<close>

definition bridge_conf :: netconf where
  "bridge_conf =
     Some [(''name'', GString ''mynet''), (''type'', GString ''bridge''),
           (''bridge'', GString ''cni2'')]"

definition loopback_conf :: netconf where
  "loopback_conf = Some [(''type'', GString ''loopback'')]"

definition etcd_contents :: "(string \<times> bytes) list" where
  "etcd_contents =
     [(''cni/testcontainer'', netconfs_text),
      (''cni/empty'', ''[]''),
      (''cni/untyped'', untyped_text),
      (''cni/twice'', twice_text)]"

definition doc_env :: "((string \<times> bytes) list, string list, string) env" where
  "doc_env =
     \<lparr>json_Unmarshal_LibKvConf = (\<lambda>b.
        if b = libkv_conf_text then
          Inr \<lparr>StoreBackend = ''etcd'', Uri = ''localhost:2379'', BasePath = ''cni/'',
               StoreConfig = [(''connectionTimeout'', ''30'')]\<rparr>
        else if b = libkv_conf_noslash_text then
          Inr \<lparr>StoreBackend = ''etcd'', Uri = ''localhost:2379'', BasePath = ''cni'',
               StoreConfig = []\<rparr>
        else if b = ''{}'' then
          Inr \<lparr>StoreBackend = [], Uri = [], BasePath = [], StoreConfig = []\<rparr>
        else Inl (Error ''unexpected end of JSON input'')),
      json_Unmarshal_netconfs = (\<lambda>b.
        if b = netconfs_text then Inr [bridge_conf, loopback_conf]
        else if b = ''[]'' then Inr []
        else if b = untyped_text then
          Inr [Some [(''type'', GString ''bridge'')], Some [(''name'', GString ''lo'')],
               loopback_conf]
        else if b = twice_text then
          Inr [Some [(''type'', GString ''bridge'')], Some [(''type'', GString ''bridge'')],
               loopback_conf]
        else Inl (Error ''unexpected end of JSON input'')),
      json_Marshal = (\<lambda>conf.
        Inr (case conf_type conf of None \<Rightarrow> ''{}'' | Some t \<Rightarrow> ''{type:'' @ t @ ''}'')),
      libkv_NewStore = (\<lambda>backend addrs cfg.
        if backend \<in> set [''consul'', ''etcd'', ''zookeeper''] then Inr etcd_contents
        else Inl (Error ''Backend storage not supported yet, please choose one of'')),
      store_Get = (\<lambda>kv key.
        case map_of kv key of
          None \<Rightarrow> Inl (Error ''Key not found in store'')
        | Some val \<Rightarrow> Inr val),
      os_MkdirAll = (\<lambda>path perm. None),
      WriteFile_fault = (\<lambda>path data perm. None),
      ReadFile_fault = (\<lambda>path.
        if path = stateDir then Some (Error (''read '' @ path @ '': is a directory''))
        else None),
      Remove_fault = (\<lambda>path.
        if path = stateDir then Some (Error (''remove '' @ path @ '': directory not empty''))
        else None),
      filepath_Join = (\<lambda>dir name. if name = [] then dir else dir @ ''/'' @ name),
      invoke_DelegateAdd = (\<lambda>t conf h.
        if t \<in> set h then (Inl (Error (''already attached: '' @ t)), h)
        else (Inr (''result of '' @ t), h @ [t])),
      invoke_DelegateDel = (\<lambda>t conf h. (None, removeAll t h)),
      Result_Print = (\<lambda>r. None)\<rparr>"

definition args_of :: "string \<Rightarrow> bytes \<Rightarrow> CmdArgs" where
  "args_of cid stdin =
     \<lparr>ContainerID = cid, Netns = ''/var/run/netns/'' @ cid, IfName = ''eth0'', Args = [],
      Path = ''/opt/cni/bin'', StdinData = stdin\<rparr>"

definition world0 :: "(string list, string) world" where
  "world0 = \<lparr>files = Map.empty, host = [], trace = []\<rparr>"

text \<open>
  The same host after its file system has become read-only: it refuses every
  write and every removal.
\<close>

definition readonly_env :: "((string \<times> bytes) list, string list, string) env" where
  "readonly_env =
     doc_env\<lparr>WriteFile_fault :=
               (\<lambda>path data perm. Some (Error (''open '' @ path @ '': read-only file system''))),
             Remove_fault :=
               (\<lambda>path. Some (Error (''remove '' @ path @ '': read-only file system'')))\<rparr>"

section \<open>Properties of the loops and of the scratch file\<close>

text \<open>
  General facts about the translated functions, for every environment: what the
  two loops add to the trace, that they leave the scratch files alone, and the
  shape of a run of \<open>cmdAdd\<close> once the list has been fetched and parsed.
\<close>

lemma strings_HasSuffix_suffix: "strings_HasSuffix s suf \<longleftrightarrow> suffix suf s"
proof
  assume "strings_HasSuffix s suf"
  then have "drop (length s - length suf) s = suf"
    by (simp add: strings_HasSuffix_def)
  then have "s = take (length s - length suf) s @ suf"
    by (metis append_take_drop_id)
  then show "suffix suf s"
    by (metis suffixI)
next
  assume "suffix suf s"
  then obtain p where "s = p @ suf"
    by (auto simp: suffix_def)
  then show "strings_HasSuffix s suf"
    by (simp add: strings_HasSuffix_def)
qed

lemma added_types_append: "added_types (xs @ ys) = added_types xs @ added_types ys"
  by (induction xs rule: added_types.induct) simp_all

lemma deleted_types_append: "deleted_types (xs @ ys) = deleted_types xs @ deleted_types ys"
  by (induction xs rule: deleted_types.induct) simp_all

lemma printed_append: "printed (xs @ ys) = printed xs @ printed ys"
  by (induction xs rule: printed.induct) simp_all


lemma cmdAdd_loop_files: "files (snd (cmdAdd_loop E i L r w)) = files w"
  by (induction L arbitrary: i r w)
     (auto split: sum.splits option.splits prod.splits simp: Let_def)

lemma cmdDel_loop_files: "files (snd (cmdDel_loop E i L w)) = files w"
  by (induction L arbitrary: i w)
     (auto split: sum.splits option.splits prod.splits simp: Let_def)

lemma cmdAdd_loop_events:
  "cmdAdd_loop E i L r w = (out, w') \<Longrightarrow>
     \<exists>ds. trace w' = trace w @ ds \<and> list_all is_EvDelegateAdd ds
        \<and> prefix (map Some (added_types ds)) (map conf_type L)
        \<and> (is_Done out \<longrightarrow> map Some (added_types ds) = map conf_type L)
        \<and> host w' = replay E ds (host w)"
proof (induction L arbitrary: i r w)
  case Nil
  then show ?case by auto
next
  case (Cons conf rest)
  show ?case
  proof (cases "json_Marshal E conf")
    case (Inl err)
    with Cons.prems show ?thesis by auto
  next
    case (Inr confBytes)
    show ?thesis
    proof (cases "conf_type conf")
      case None
      with Inr Cons.prems show ?thesis by auto
    next
      case (Some t)
      obtain res h where call: "invoke_DelegateAdd E t confBytes (host w) = (res, h)"
        by (cases "invoke_DelegateAdd E t confBytes (host w)")
      define w1 where "w1 = w\<lparr>host := h, trace := trace w @ [EvDelegateAdd t confBytes]\<rparr>"
      show ?thesis
      proof (cases res)
        case (Inl err)
        with Inr Some call Cons.prems show ?thesis
          by (auto simp: Let_def)
      next
        case res: (Inr x)
        with Inr Some call Cons.prems
        have "cmdAdd_loop E (Suc i) rest (if i = 0 then Some x else r) w1 = (out, w')"
          by (simp add: Let_def w1_def)
        from Cons.IH [OF this] obtain ds where
          ds: "trace w' = trace w1 @ ds" "list_all is_EvDelegateAdd ds"
              "prefix (map Some (added_types ds)) (map conf_type rest)"
              "is_Done out \<longrightarrow> map Some (added_types ds) = map conf_type rest"
              "host w' = replay E ds (host w1)"
          by blast
        have "trace w' = trace w @ (EvDelegateAdd t confBytes # ds)"
          using ds(1) by (simp add: w1_def)
        moreover have "host w' = replay E (EvDelegateAdd t confBytes # ds) (host w)"
          using ds(5) call by (simp add: w1_def)
        ultimately show ?thesis
          using ds(2-4) Some
          by (intro exI [of _ "EvDelegateAdd t confBytes # ds"]) simp
      qed
    qed
  qed
qed

lemma events_sinceI: "trace w' = trace w @ evs \<Longrightarrow> events_since w w' = evs"
  by (simp add: events_since_def)


lemma saveScratchNetConf_ok:
  assumes "os_MkdirAll E stateDir perm_0700 = None"
    and "WriteFile_fault E (filepath_Join E stateDir cid) val perm_0600 = None"
  shows "saveScratchNetConf E cid val w =
           (None, w\<lparr>files := (files w)(filepath_Join E stateDir cid \<mapsto> val),
                    trace := trace w @ [EvWriteFile (filepath_Join E stateDir cid) val]\<rparr>)"
  using assms by (simp add: saveScratchNetConf_def ioutil_WriteFile_def Let_def)

lemma saveScratchNetConf_cases:
  "(\<exists>err. saveScratchNetConf E cid val w = (Some err, w)) \<or>
   saveScratchNetConf E cid val w =
           (None, w\<lparr>files := (files w)(filepath_Join E stateDir cid \<mapsto> val),
                    trace := trace w @ [EvWriteFile (filepath_Join E stateDir cid) val]\<rparr>)"
  by (simp add: saveScratchNetConf_def ioutil_WriteFile_def Let_def split: option.splits)

text \<open>What \<open>cmdAdd\<close> does with the outcome of its loop.\<close>

lemma cmdAdd_fetched:
  assumes "loadPluginConfig E (StdinData args) = Inr config"
    and "libkv_NewStore E (StoreBackend config) [Uri config]
           \<lparr>ConnectionTimeout = 10 * time_Second\<rparr> = Inr kv"
    and "store_Get E kv (BasePath config @ ContainerID args) = Inr val"
    and "json_Unmarshal_netconfs E val = Inr L"
  shows "(\<exists>err. cmdAdd E args w =
            (Failed (Error (''Could not save generated cni configs: '' @ msg err)),
             w\<lparr>trace := trace w @
                 [EvNewStore (StoreBackend config) [Uri config]
                    \<lparr>ConnectionTimeout = 10 * time_Second\<rparr>,
                  EvGet (BasePath config @ ContainerID args)]\<rparr>))
       \<or> cmdAdd E args w =
            (case cmdAdd_loop E 0 L None (loop_start E args config val w) of
               (Done result, w4) \<Rightarrow>
                 (case Result_Print E result of None \<Rightarrow> Done () | Some err \<Rightarrow> Failed err,
                  w4\<lparr>trace := trace w4 @ [EvPrint result]\<rparr>)
             | (Failed err, w4) \<Rightarrow> (Failed err, w4)
             | (Panic, w4) \<Rightarrow> (Panic, w4)
             | (Fatal m, w4) \<Rightarrow> (Fatal m, w4))"
proof -
  let ?w2 = "w\<lparr>trace := trace w @
                 [EvNewStore (StoreBackend config) [Uri config]
                    \<lparr>ConnectionTimeout = 10 * time_Second\<rparr>,
                  EvGet (BasePath config @ ContainerID args)]\<rparr>"
  from saveScratchNetConf_cases [of E "ContainerID args" val ?w2]
  show ?thesis
  proof
    assume "\<exists>err. saveScratchNetConf E (ContainerID args) val ?w2 = (Some err, ?w2)"
    then obtain err where "saveScratchNetConf E (ContainerID args) val ?w2 = (Some err, ?w2)" ..
    with assms have "cmdAdd E args w =
            (Failed (Error (''Could not save generated cni configs: '' @ msg err)), ?w2)"
      by (simp add: cmdAdd_def Let_def)
    then show ?thesis by blast
  next
    assume "saveScratchNetConf E (ContainerID args) val ?w2 =
           (None, ?w2\<lparr>files := (files ?w2)(filepath_Join E stateDir (ContainerID args) \<mapsto> val),
                    trace := trace ?w2 @ [EvWriteFile (filepath_Join E stateDir (ContainerID args)) val]\<rparr>)"
    with assms show ?thesis
      by (simp add: cmdAdd_def Let_def loop_start_def)
  qed
qed

lemma cmdAdd_saved:
  assumes "loadPluginConfig E (StdinData args) = Inr config"
    and "libkv_NewStore E (StoreBackend config) [Uri config]
           \<lparr>ConnectionTimeout = 10 * time_Second\<rparr> = Inr kv"
    and "store_Get E kv (BasePath config @ ContainerID args) = Inr val"
    and "json_Unmarshal_netconfs E val = Inr L"
    and "os_MkdirAll E stateDir perm_0700 = None"
    and "WriteFile_fault E (filepath_Join E stateDir (ContainerID args)) val perm_0600 = None"
  shows "cmdAdd E args w =
            (case cmdAdd_loop E 0 L None (loop_start E args config val w) of
               (Done result, w4) \<Rightarrow>
                 (case Result_Print E result of None \<Rightarrow> Done () | Some err \<Rightarrow> Failed err,
                  w4\<lparr>trace := trace w4 @ [EvPrint result]\<rparr>)
             | (Failed err, w4) \<Rightarrow> (Failed err, w4)
             | (Panic, w4) \<Rightarrow> (Panic, w4)
             | (Fatal m, w4) \<Rightarrow> (Fatal m, w4))"
  using assms
  by (simp add: cmdAdd_def Let_def loop_start_def saveScratchNetConf_ok)

lemma os_Remove_world:
  "Remove_fault E path = None \<Longrightarrow>
     snd (os_Remove E path w) =
       w\<lparr>files := (files w)(path := None), trace := trace w @ [EvRemove path]\<rparr>"
  "Remove_fault E path = Some err \<Longrightarrow> snd (os_Remove E path w) = w"
  by (simp_all add: os_Remove_def)

lemma consumeScratchNetConf_parts:
  "fst (consumeScratchNetConf E cid w) = ioutil_ReadFile E (filepath_Join E stateDir cid) w"
  "snd (consumeScratchNetConf E cid w) = snd (os_Remove E (filepath_Join E stateDir cid) w)"
  by (simp_all add: consumeScratchNetConf_def Let_def split: prod.splits)

lemma cmdDel_unfold:
  "cmdDel E args w =
     (case ioutil_ReadFile E (filepath_Join E stateDir (ContainerID args)) w of
        Inl err \<Rightarrow> (Failed err, snd (os_Remove E (filepath_Join E stateDir (ContainerID args)) w))
      | Inr netconfBytes \<Rightarrow>
          (case json_Unmarshal_netconfs E netconfBytes of
             Inl err \<Rightarrow>
               (Failed (Error (''failed to parse netconf: '' @ msg err)),
                snd (os_Remove E (filepath_Join E stateDir (ContainerID args)) w))
           | Inr netconfs \<Rightarrow>
               cmdDel_loop E 0 netconfs
                 (snd (os_Remove E (filepath_Join E stateDir (ContainerID args)) w))))"
  by (cases "os_Remove E (filepath_Join E stateDir (ContainerID args)) w")
     (simp add: cmdDel_def consumeScratchNetConf_def Let_def split: sum.splits)

lemma cmdDel_files:
  "files (snd (cmdDel E args w)) =
     files (snd (os_Remove E (filepath_Join E stateDir (ContainerID args)) w))"
  by (simp add: cmdDel_unfold cmdDel_loop_files split: sum.splits)

lemma cmdDel_absent:
  "files w (filepath_Join E stateDir (ContainerID args)) = None \<Longrightarrow>
   ReadFile_fault E (filepath_Join E stateDir (ContainerID args)) = None \<Longrightarrow>
     fst (cmdDel E args w) = Failed (not_exist (filepath_Join E stateDir (ContainerID args)))"
  by (simp add: cmdDel_unfold ioutil_ReadFile_def)

lemma cmdAdd_events:
  assumes "loadPluginConfig E (StdinData args) = Inr config"
    and "libkv_NewStore E (StoreBackend config) [Uri config]
           \<lparr>ConnectionTimeout = 10 * time_Second\<rparr> = Inr kv"
    and "store_Get E kv (BasePath config @ ContainerID args) = Inr val"
    and "json_Unmarshal_netconfs E val = Inr L"
    and run: "cmdAdd E args w = (out, w')"
  shows "(is_Failed out \<and> files w' = files w \<and>
          events_since w w' =
            [EvNewStore (StoreBackend config) [Uri config]
               \<lparr>ConnectionTimeout = 10 * time_Second\<rparr>,
             EvGet (BasePath config @ ContainerID args)])
       \<or> (\<exists>ds pr.
            events_since w w' =
              [EvNewStore (StoreBackend config) [Uri config]
                 \<lparr>ConnectionTimeout = 10 * time_Second\<rparr>,
               EvGet (BasePath config @ ContainerID args),
               EvWriteFile (filepath_Join E stateDir (ContainerID args)) val] @ ds @ pr
          \<and> list_all is_EvDelegateAdd ds
          \<and> prefix (map Some (added_types ds)) (map conf_type L)
          \<and> (out = Done () \<longrightarrow> map Some (added_types ds) = map conf_type L)
          \<and> (pr = [] \<or> (\<exists>r. pr = [EvPrint r]))
          \<and> files w' = (files w)(filepath_Join E stateDir (ContainerID args) \<mapsto> val))"
proof -
  let ?N = "EvNewStore (StoreBackend config) [Uri config]
               \<lparr>ConnectionTimeout = 10 * time_Second\<rparr>"
  let ?G = "EvGet (BasePath config @ ContainerID args)"
  let ?W = "EvWriteFile (filepath_Join E stateDir (ContainerID args)) val"
  let ?w3 = "loop_start E args config val w"
  from cmdAdd_fetched [OF assms(1-4), of w] show ?thesis
  proof
    assume "\<exists>err. cmdAdd E args w =
            (Failed (Error (''Could not save generated cni configs: '' @ msg err)),
             w\<lparr>trace := trace w @ [?N, ?G]\<rparr>)"
    with run have "is_Failed out" and "w' = w\<lparr>trace := trace w @ [?N, ?G]\<rparr>"
      by auto
    then show ?thesis
      by (simp add: events_since_def)
  next
    assume eq: "cmdAdd E args w =
            (case cmdAdd_loop E 0 L None ?w3 of
               (Done result, w4) \<Rightarrow>
                 (case Result_Print E result of None \<Rightarrow> Done () | Some err \<Rightarrow> Failed err,
                  w4\<lparr>trace := trace w4 @ [EvPrint result]\<rparr>)
             | (Failed err, w4) \<Rightarrow> (Failed err, w4)
             | (Panic, w4) \<Rightarrow> (Panic, w4)
             | (Fatal m, w4) \<Rightarrow> (Fatal m, w4))"
    obtain out4 w4 where loop: "cmdAdd_loop E 0 L None ?w3 = (out4, w4)"
      by (cases "cmdAdd_loop E 0 L None ?w3")
    from cmdAdd_loop_events [OF loop] obtain ds where
      ds: "trace w4 = trace ?w3 @ ds" "list_all is_EvDelegateAdd ds"
          "prefix (map Some (added_types ds)) (map conf_type L)"
          "is_Done out4 \<longrightarrow> map Some (added_types ds) = map conf_type L"
      by blast
    have f4: "files w4 = files ?w3"
      using cmdAdd_loop_files [of E 0 L None ?w3] loop by simp
    have tr3: "trace ?w3 = trace w @ [?N, ?G, ?W]"
      and f3: "files ?w3 = (files w)(filepath_Join E stateDir (ContainerID args) \<mapsto> val)"
      by (simp_all add: loop_start_def)
    define pr where "pr = (case out4 of Done result \<Rightarrow> [EvPrint result] | _ \<Rightarrow> [])"
    have w': "trace w' = trace w4 @ pr" "files w' = files w4"
      and fin: "out = Done () \<longrightarrow> is_Done out4"
      using run eq loop by (auto simp: pr_def split: outcome.splits option.splits)
    have "events_since w w' = [?N, ?G, ?W] @ ds @ pr"
      using w'(1) ds(1) tr3 by (simp add: events_since_def)
    moreover have "pr = [] \<or> (\<exists>r. pr = [EvPrint r])"
      by (simp add: pr_def split: outcome.splits)
    ultimately show ?thesis
      using ds(2-4) fin w'(2) f4 f3
      by (intro disjI2 exI [of _ ds] exI [of _ pr]) simp
  qed
qed

lemma added_types_only_adds:
  "list_all is_EvDelegateAdd ds \<Longrightarrow>
     deleted_types ds = [] \<and> used_keys ds = [] \<and> printed ds = []"
  by (induction ds) (auto simp: is_EvDelegateAdd_def)




lemma prefix_before_None:
  assumes "prefix (map Some ts) (xs @ None # ys)"
  shows "prefix (map Some ts) xs"
proof -
  from assms consider "prefix (map Some ts) xs"
    | us where "map Some ts = xs @ us" "prefix us (None # ys)"
    by (auto simp: prefix_append)
  then show ?thesis
  proof cases
    case 1
    then show ?thesis .
  next
    case 2
    have "None \<notin> set (map Some ts)" by auto
    with 2 have "us = []"
      by (cases us) (auto simp: prefix_Cons)
    with 2 show ?thesis by simp
  qed
qed

lemma cmdAdd_added_types:
  assumes "loadPluginConfig E (StdinData args) = Inr config"
    and "libkv_NewStore E (StoreBackend config) [Uri config]
           \<lparr>ConnectionTimeout = 10 * time_Second\<rparr> = Inr kv"
    and "store_Get E kv (BasePath config @ ContainerID args) = Inr val"
    and "json_Unmarshal_netconfs E val = Inr L"
    and "cmdAdd E args w = (out, w')"
  shows "prefix (map Some (added_types (events_since w w'))) (map conf_type L)"
    and "out = Done () \<Longrightarrow> map Some (added_types (events_since w w')) = map conf_type L"
proof -
  let ?N = "EvNewStore (StoreBackend config) [Uri config]
               \<lparr>ConnectionTimeout = 10 * time_Second\<rparr>"
  let ?G = "EvGet (BasePath config @ ContainerID args)"
  let ?W = "EvWriteFile (filepath_Join E stateDir (ContainerID args)) val"
  have "prefix (map Some (added_types (events_since w w'))) (map conf_type L)
      \<and> (out = Done () \<longrightarrow> map Some (added_types (events_since w w')) = map conf_type L)"
    using cmdAdd_events [OF assms]
  proof
    assume "is_Failed out \<and> files w' = files w \<and> events_since w w' = [?N, ?G]"
    then show ?thesis by auto
  next
    assume "\<exists>ds pr. events_since w w' = [?N, ?G, ?W] @ ds @ pr
          \<and> list_all is_EvDelegateAdd ds
          \<and> prefix (map Some (added_types ds)) (map conf_type L)
          \<and> (out = Done () \<longrightarrow> map Some (added_types ds) = map conf_type L)
          \<and> (pr = [] \<or> (\<exists>r. pr = [EvPrint r]))
          \<and> files w' = (files w)(filepath_Join E stateDir (ContainerID args) \<mapsto> val)"
    then obtain ds pr where evs: "events_since w w' = [?N, ?G, ?W] @ ds @ pr"
      and ds: "prefix (map Some (added_types ds)) (map conf_type L)"
          "out = Done () \<longrightarrow> map Some (added_types ds) = map conf_type L"
      and pr: "pr = [] \<or> (\<exists>r. pr = [EvPrint r])"
      by blast
    from pr have "added_types pr = []" by auto
    then have "added_types (events_since w w') = added_types ds"
      by (simp add: evs added_types_append)
    with ds show ?thesis by simp
  qed
  then show "prefix (map Some (added_types (events_since w w'))) (map conf_type L)"
    and "out = Done () \<Longrightarrow> map Some (added_types (events_since w w')) = map conf_type L"
    by simp_all
qed

lemma cmdAdd_loop_result_kept:
  "0 < i \<Longrightarrow> cmdAdd_loop E i L r w = (Done r', w') \<Longrightarrow> r' = r"
proof (induction L arbitrary: i r w)
  case Nil
  then show ?case by simp
next
  case (Cons conf rest)
  from Cons.prems obtain confBytes t res h where
    "cmdAdd_loop E (Suc i) rest r
       (w\<lparr>host := h, trace := trace w @ [EvDelegateAdd t confBytes]\<rparr>) = (Done r', w')"
    by (auto simp: Let_def split: sum.splits option.splits prod.splits)
  with Cons.IH [of "Suc i"] show ?case by simp
qed

lemma cmdAdd_loop_first:
  assumes "json_Marshal E conf0 = Inr b0"
    and "conf_type conf0 = Some t0"
    and "invoke_DelegateAdd E t0 b0 (host w) = (Inr res0, h)"
    and "cmdAdd_loop E 0 (conf0 # rest) None w = (Done r', w')"
  shows "r' = Some res0"
proof -
  from assms have "cmdAdd_loop E (Suc 0) rest (Some res0)
       (w\<lparr>host := h, trace := trace w @ [EvDelegateAdd t0 b0]\<rparr>) = (Done r', w')"
    by (simp add: Let_def)
  from cmdAdd_loop_result_kept [OF _ this] show ?thesis by simp
qed

lemma loadPluginConfig_Inr:
  assumes "json_Unmarshal_LibKvConf E b = Inr c"
  shows "loadPluginConfig E b =
           Inr (c\<lparr>BasePath := (if suffix ''/'' (BasePath c) then BasePath c
                                else BasePath c @ ''/'')\<rparr>)"
  using assms by (simp add: loadPluginConfig_def strings_HasSuffix_suffix)

lemma cmdAdd_loop_append:
  "cmdAdd_loop E i xs r w = (Done r', w') \<Longrightarrow>
     cmdAdd_loop E i (xs @ ys) r w = cmdAdd_loop E (i + length xs) ys r' w'"
proof (induction xs arbitrary: i r w)
  case Nil
  then show ?case by simp
next
  case (Cons conf rest)
  from Cons.prems obtain confBytes t x h where
    step: "json_Marshal E conf = Inr confBytes" "conf_type conf = Some t"
      "invoke_DelegateAdd E t confBytes (host w) = (Inr x, h)"
    and rec: "cmdAdd_loop E (Suc i) rest (if i = 0 then Some x else r)
       (w\<lparr>host := h, trace := trace w @ [EvDelegateAdd t confBytes]\<rparr>) = (Done r', w')"
    by (auto simp: Let_def split: sum.splits option.splits prod.splits if_splits)
  from Cons.IH [OF rec] step show ?case
    by (simp add: Let_def)
qed

section \<open>The documented scenario, evaluated\<close>

text \<open>The library calls and the runs of the concrete host, computed once.\<close>

lemmas doc_texts = libkv_conf_text_def libkv_conf_noslash_text_def netconfs_text_def
  untyped_text_def twice_text_def

lemma doc_env_calls:
  "json_Unmarshal_LibKvConf doc_env libkv_conf_text =
     Inr \<lparr>StoreBackend = ''etcd'', Uri = ''localhost:2379'', BasePath = ''cni/'',
          StoreConfig = [(''connectionTimeout'', ''30'')]\<rparr>"
  "json_Unmarshal_LibKvConf doc_env libkv_conf_noslash_text =
     Inr \<lparr>StoreBackend = ''etcd'', Uri = ''localhost:2379'', BasePath = ''cni'',
          StoreConfig = []\<rparr>"
  "json_Unmarshal_LibKvConf doc_env ''{}'' =
     Inr \<lparr>StoreBackend = [], Uri = [], BasePath = [], StoreConfig = []\<rparr>"
  "json_Unmarshal_LibKvConf doc_env ''{'' = Inl (Error ''unexpected end of JSON input'')"
  "json_Unmarshal_netconfs doc_env netconfs_text = Inr [bridge_conf, loopback_conf]"
  "json_Unmarshal_netconfs doc_env ''[]'' = Inr []"
  "json_Unmarshal_netconfs doc_env untyped_text =
     Inr [Some [(''type'', GString ''bridge'')], Some [(''name'', GString ''lo'')],
          loopback_conf]"
  "libkv_NewStore doc_env ''etcd'' addrs cfg = Inr etcd_contents"
  "libkv_NewStore doc_env [] addrs cfg =
     Inl (Error ''Backend storage not supported yet, please choose one of'')"
  "store_Get doc_env etcd_contents ''cni/testcontainer'' = Inr netconfs_text"
  "store_Get doc_env etcd_contents ''cni/empty'' = Inr ''[]''"
  "store_Get doc_env etcd_contents ''cni/untyped'' = Inr untyped_text"
  "os_MkdirAll doc_env path perm = None"
  "WriteFile_fault doc_env path data perm = None"
  "name \<noteq> [] \<Longrightarrow> filepath_Join doc_env dir name = dir @ ''/'' @ name"
  "Result_Print doc_env r = None"
  "path \<noteq> stateDir \<Longrightarrow> ReadFile_fault doc_env path = None"
  "path \<noteq> stateDir \<Longrightarrow> Remove_fault doc_env path = None"
  by (simp_all add: doc_env_def doc_texts etcd_contents_def)

lemmas run_defs = cmdAdd_def cmdDel_def loadPluginConfig_def saveScratchNetConf_def
  consumeScratchNetConf_def ioutil_WriteFile_def ioutil_ReadFile_def os_Remove_def
  strings_HasSuffix_def conf_type_def map_index_def stateDir_def perm_0700_def perm_0600_def
  time_Second_def not_exist_def events_since_def Let_def
  doc_env_def args_of_def world0_def doc_texts bridge_conf_def loopback_conf_def
  etcd_contents_def

lemma doc_fetch:
  "loadPluginConfig doc_env (StdinData (args_of cid libkv_conf_text))
     = Inr \<lparr>StoreBackend = ''etcd'', Uri = ''localhost:2379'', BasePath = ''cni/'',
            StoreConfig = [(''connectionTimeout'', ''30'')]\<rparr>"
  "libkv_NewStore doc_env
     (StoreBackend \<lparr>StoreBackend = ''etcd'', Uri = ''localhost:2379'', BasePath = ''cni/'',
            StoreConfig = [(''connectionTimeout'', ''30'')]\<rparr>)
     [Uri \<lparr>StoreBackend = ''etcd'', Uri = ''localhost:2379'', BasePath = ''cni/'',
            StoreConfig = [(''connectionTimeout'', ''30'')]\<rparr>]
     \<lparr>ConnectionTimeout = 10 * time_Second\<rparr> = Inr etcd_contents"
  "store_Get doc_env etcd_contents
     (BasePath \<lparr>StoreBackend = ''etcd'', Uri = ''localhost:2379'', BasePath = ''cni/'',
            StoreConfig = [(''connectionTimeout'', ''30'')]\<rparr>
      @ ContainerID (args_of ''testcontainer'' libkv_conf_text)) = Inr netconfs_text"
  "store_Get doc_env etcd_contents
     (BasePath \<lparr>StoreBackend = ''etcd'', Uri = ''localhost:2379'', BasePath = ''cni/'',
            StoreConfig = [(''connectionTimeout'', ''30'')]\<rparr>
      @ ContainerID (args_of ''empty'' libkv_conf_text)) = Inr ''[]''"
  "store_Get doc_env etcd_contents
     (BasePath \<lparr>StoreBackend = ''etcd'', Uri = ''localhost:2379'', BasePath = ''cni/'',
            StoreConfig = [(''connectionTimeout'', ''30'')]\<rparr>
      @ ContainerID (args_of ''untyped'' libkv_conf_text)) = Inr untyped_text"
  by (simp_all add: loadPluginConfig_def args_of_def doc_env_calls strings_HasSuffix_def)

lemma doc_world0: "trace world0 = []" "host world0 = []" "files world0 = Map.empty"
  by (simp_all add: world0_def)

lemma doc_setup_run:
  "fst (cmdAdd doc_env (args_of ''testcontainer'' libkv_conf_text) world0) = Done ()"
  "trace (snd (cmdAdd doc_env (args_of ''testcontainer'' libkv_conf_text) world0)) =
     [EvNewStore ''etcd'' [''localhost:2379''] \<lparr>ConnectionTimeout = 10 * time_Second\<rparr>,
      EvGet ''cni/testcontainer'',
      EvWriteFile ''/var/lib/cni/libkv/testcontainer'' netconfs_text,
      EvDelegateAdd ''bridge'' ''{type:bridge}'',
      EvDelegateAdd ''loopback'' ''{type:loopback}'',
      EvPrint (Some ''result of bridge'')]"
  "files (snd (cmdAdd doc_env (args_of ''testcontainer'' libkv_conf_text) world0))
     ''/var/lib/cni/libkv/testcontainer'' = Some netconfs_text"
  "host (snd (cmdAdd doc_env (args_of ''testcontainer'' libkv_conf_text) world0))
     = [''bridge'', ''loopback'']"
  by (simp_all add: run_defs)

lemma doc_teardown_run:
  "fst (cmdDel doc_env (args_of ''testcontainer'' libkv_conf_text)
     (snd (cmdAdd doc_env (args_of ''testcontainer'' libkv_conf_text) world0))) = Done ()"
  "trace (snd (cmdDel doc_env (args_of ''testcontainer'' libkv_conf_text)
     (snd (cmdAdd doc_env (args_of ''testcontainer'' libkv_conf_text) world0)))) =
     [EvNewStore ''etcd'' [''localhost:2379''] \<lparr>ConnectionTimeout = 10 * time_Second\<rparr>,
      EvGet ''cni/testcontainer'',
      EvWriteFile ''/var/lib/cni/libkv/testcontainer'' netconfs_text,
      EvDelegateAdd ''bridge'' ''{type:bridge}'',
      EvDelegateAdd ''loopback'' ''{type:loopback}'',
      EvPrint (Some ''result of bridge''),
      EvRemove ''/var/lib/cni/libkv/testcontainer'',
      EvDelegateDel ''bridge'' ''{type:bridge}'',
      EvDelegateDel ''loopback'' ''{type:loopback}'']"
  "host (snd (cmdDel doc_env (args_of ''testcontainer'' libkv_conf_text)
     (snd (cmdAdd doc_env (args_of ''testcontainer'' libkv_conf_text) world0)))) = []"
  by (simp_all add: run_defs)

text \<open>
  Teardown with the empty container identifier: the path is the state directory
  itself, the read fails as the read of a directory does, the host refuses the
  removal, and a second teardown ends in the same way.
\<close>

lemma doc_empty_id_teardown:
  "filepath_Join doc_env stateDir (ContainerID (args_of [] libkv_conf_text)) = stateDir"
  "fst (cmdDel doc_env (args_of [] libkv_conf_text) world0)
     = Failed (Error ''read /var/lib/cni/libkv: is a directory'')"
  "trace (snd (cmdDel doc_env (args_of [] libkv_conf_text) world0)) = []"
  "fst (cmdDel doc_env (args_of [] libkv_conf_text)
     (snd (cmdDel doc_env (args_of [] libkv_conf_text) world0)))
     = Failed (Error ''read /var/lib/cni/libkv: is a directory'')"
  by (simp_all add: run_defs split: prod.splits)

lemma doc_loop_run:
  "json_Marshal doc_env bridge_conf = Inr ''{type:bridge}''"
  "conf_type bridge_conf = Some ''bridge''"
  "invoke_DelegateAdd doc_env ''bridge'' ''{type:bridge}'' (host world0)
     = (Inr ''result of bridge'', [''bridge''])"
  "is_Done (fst (cmdAdd_loop doc_env 0 [bridge_conf, loopback_conf] None
     (loop_start doc_env (args_of ''testcontainer'' libkv_conf_text)
        \<lparr>StoreBackend = ''etcd'', Uri = ''localhost:2379'', BasePath = ''cni/'',
          StoreConfig = [(''connectionTimeout'', ''30'')]\<rparr> netconfs_text world0)))"
  by (simp_all add: doc_env_def conf_type_def map_index_def bridge_conf_def loopback_conf_def
        world0_def loop_start_def Let_def)

lemma doc_untyped_loop:
  "conf_type (Some [(''name'', GString ''lo'')]) = None"
  "json_Marshal doc_env (Some [(''name'', GString ''lo'')]) = Inr ''{}''"
  "fst (cmdAdd_loop doc_env 0 [Some [(''type'', GString ''bridge'')]] None
     (loop_start doc_env (args_of ''untyped'' libkv_conf_text)
        \<lparr>StoreBackend = ''etcd'', Uri = ''localhost:2379'', BasePath = ''cni/'',
          StoreConfig = [(''connectionTimeout'', ''30'')]\<rparr> untyped_text world0))
   = Done (Some ''result of bridge'')"
  "added_types (trace (snd (cmdAdd_loop doc_env 0 [Some [(''type'', GString ''bridge'')]] None
     (loop_start doc_env (args_of ''untyped'' libkv_conf_text)
        \<lparr>StoreBackend = ''etcd'', Uri = ''localhost:2379'', BasePath = ''cni/'',
          StoreConfig = [(''connectionTimeout'', ''30'')]\<rparr> untyped_text world0))))
   = [''bridge'']"
  by (simp_all add: doc_env_def conf_type_def map_index_def world0_def loop_start_def Let_def)

section \<open>The claims of the specification\<close>

text \<open>
  C1. In every setup in which the fetched bytes parse, the scratch file is
  written before any child plugin is invoked: whenever an attach delegation
  occurs among the events of \<open>cmdAdd\<close>, the write of the raw fetched bytes
  \<open>val\<close> to the scratch file of the container occurs among the events before
  it, and the file holds exactly \<open>val\<close> when \<open>cmdAdd\<close> ends.
\<close>

theorem scratch_write_precedes_delegation:
  assumes "loadPluginConfig E (StdinData args) = Inr config"
    and "libkv_NewStore E (StoreBackend config) [Uri config]
           \<lparr>ConnectionTimeout = 10 * time_Second\<rparr> = Inr kv"
    and "store_Get E kv (BasePath config @ ContainerID args) = Inr val"
    and "json_Unmarshal_netconfs E val = Inr L"
    and "cmdAdd E args w = (out, w')"
    and split: "events_since w w' = pre @ e # post"
    and e: "is_EvDelegateAdd e"
  shows "EvWriteFile (filepath_Join E stateDir (ContainerID args)) val \<in> set pre
       \<and> files w' (filepath_Join E stateDir (ContainerID args)) = Some val"
proof -
  let ?N = "EvNewStore (StoreBackend config) [Uri config]
               \<lparr>ConnectionTimeout = 10 * time_Second\<rparr>"
  let ?G = "EvGet (BasePath config @ ContainerID args)"
  let ?W = "EvWriteFile (filepath_Join E stateDir (ContainerID args)) val"
  have e_in: "e \<in> set (events_since w w')"
    using split by simp
  from cmdAdd_events [OF assms(1-5)] consider
      (refused) "events_since w w' = [?N, ?G]"
    | (saved) ds pr where "events_since w w' = [?N, ?G, ?W] @ ds @ pr"
        "files w' = (files w)(filepath_Join E stateDir (ContainerID args) \<mapsto> val)"
    by blast
  then show ?thesis
  proof cases
    case refused
    with e_in e show ?thesis by auto
  next
    case saved
    have "pre @ e # post = ?N # ?G # ?W # (ds @ pr)"
      using split saved(1) by simp
    then have "?W \<in> set pre"
      using e by (auto simp: append_eq_Cons_conv)
    with saved(2) show ?thesis by simp
  qed
qed

theorem scratch_write_precedes_delegation_witness:
  "events_since world0 (snd (cmdAdd doc_env (args_of ''testcontainer'' libkv_conf_text) world0))
     = [EvNewStore ''etcd'' [''localhost:2379''] \<lparr>ConnectionTimeout = 10 * time_Second\<rparr>,
        EvGet ''cni/testcontainer'',
        EvWriteFile ''/var/lib/cni/libkv/testcontainer'' netconfs_text]
       @ EvDelegateAdd ''bridge'' ''{type:bridge}''
       # [EvDelegateAdd ''loopback'' ''{type:loopback}'', EvPrint (Some ''result of bridge'')]
   \<and> is_EvDelegateAdd (EvDelegateAdd ''bridge'' ''{type:bridge}'' :: string event)
   \<and> EvWriteFile (filepath_Join doc_env stateDir ''testcontainer'') netconfs_text
        \<in> set [EvNewStore ''etcd'' [''localhost:2379'']
                  \<lparr>ConnectionTimeout = 10 * time_Second\<rparr>,
                EvGet ''cni/testcontainer'',
                EvWriteFile ''/var/lib/cni/libkv/testcontainer'' netconfs_text :: string event]
   \<and> files (snd (cmdAdd doc_env (args_of ''testcontainer'' libkv_conf_text) world0))
        (filepath_Join doc_env stateDir ''testcontainer'') = Some netconfs_text"
proof -
  let ?args = "args_of ''testcontainer'' libkv_conf_text"
  have run: "cmdAdd doc_env ?args world0 = (Done (), snd (cmdAdd doc_env ?args world0))"
    using doc_setup_run(1) by (simp add: prod_eq_iff)
  have evs: "events_since world0 (snd (cmdAdd doc_env ?args world0))
     = [EvNewStore ''etcd'' [''localhost:2379''] \<lparr>ConnectionTimeout = 10 * time_Second\<rparr>,
        EvGet ''cni/testcontainer'',
        EvWriteFile ''/var/lib/cni/libkv/testcontainer'' netconfs_text]
       @ EvDelegateAdd ''bridge'' ''{type:bridge}''
       # [EvDelegateAdd ''loopback'' ''{type:loopback}'', EvPrint (Some ''result of bridge'')]"
    by (simp add: events_since_def doc_setup_run(2) doc_world0)
  have e: "is_EvDelegateAdd (EvDelegateAdd ''bridge'' ''{type:bridge}'' :: string event)"
    by simp
  have cid: "ContainerID ?args = ''testcontainer''"
    by (simp add: args_of_def)
  from scratch_write_precedes_delegation
         [OF doc_fetch(1) doc_fetch(2) doc_fetch(3) doc_env_calls(5) run evs e]
  have "EvWriteFile (filepath_Join doc_env stateDir ''testcontainer'') netconfs_text
        \<in> set [EvNewStore ''etcd'' [''localhost:2379'']
                  \<lparr>ConnectionTimeout = 10 * time_Second\<rparr>,
                EvGet ''cni/testcontainer'',
                EvWriteFile ''/var/lib/cni/libkv/testcontainer'' netconfs_text :: string event]
   \<and> files (snd (cmdAdd doc_env ?args world0))
        (filepath_Join doc_env stateDir ''testcontainer'') = Some netconfs_text"
    by (simp only: cid)
  with evs e show ?thesis
    by blast
qed

text \<open>
  C2, as the code has it. An empty configuration list is not an error on either
  path. Setup whose fetched store value parses to the empty list writes the
  scratch record, makes no delegation, hands the nil result to \<open>Print\<close> and
  returns what \<open>Print\<close> returns. Teardown whose scratch record parses to the
  empty list runs the removal of the record as every teardown does, makes no
  delegation and returns success.
\<close>

theorem empty_list_is_not_an_error:
  "(loadPluginConfig E (StdinData args) = Inr config
    \<and> libkv_NewStore E (StoreBackend config) [Uri config]
          \<lparr>ConnectionTimeout = 10 * time_Second\<rparr> = Inr kv
    \<and> store_Get E kv (BasePath config @ ContainerID args) = Inr val
    \<and> json_Unmarshal_netconfs E val = Inr []
    \<and> os_MkdirAll E stateDir perm_0700 = None
    \<and> WriteFile_fault E (filepath_Join E stateDir (ContainerID args)) val perm_0600 = None
    \<longrightarrow>
      fst (cmdAdd E args w)
        = (case Result_Print E None of None \<Rightarrow> Done () | Some err \<Rightarrow> Failed err)
      \<and> events_since w (snd (cmdAdd E args w))
        = [EvNewStore (StoreBackend config) [Uri config]
             \<lparr>ConnectionTimeout = 10 * time_Second\<rparr>,
           EvGet (BasePath config @ ContainerID args),
           EvWriteFile (filepath_Join E stateDir (ContainerID args)) val,
           EvPrint None]
      \<and> files (snd (cmdAdd E args w)) (filepath_Join E stateDir (ContainerID args)) = Some val)
   \<and> (files w' (filepath_Join E stateDir (ContainerID args')) = Some val'
      \<and> json_Unmarshal_netconfs E val' = Inr []
    \<longrightarrow>
      cmdDel E args' w'
        = (Done (), snd (os_Remove E (filepath_Join E stateDir (ContainerID args')) w')))"
proof (intro conjI impI)
  assume h: "loadPluginConfig E (StdinData args) = Inr config
    \<and> libkv_NewStore E (StoreBackend config) [Uri config]
          \<lparr>ConnectionTimeout = 10 * time_Second\<rparr> = Inr kv
    \<and> store_Get E kv (BasePath config @ ContainerID args) = Inr val
    \<and> json_Unmarshal_netconfs E val = Inr []
    \<and> os_MkdirAll E stateDir perm_0700 = None
    \<and> WriteFile_fault E (filepath_Join E stateDir (ContainerID args)) val perm_0600 = None"
  then have run: "cmdAdd E args w =
      (case Result_Print E None of None \<Rightarrow> Done () | Some err \<Rightarrow> Failed err,
       (loop_start E args config val w)
         \<lparr>trace := trace (loop_start E args config val w) @ [EvPrint None]\<rparr>)"
    using cmdAdd_saved [of E args config kv val "[]" w] by simp
  show "fst (cmdAdd E args w)
        = (case Result_Print E None of None \<Rightarrow> Done () | Some err \<Rightarrow> Failed err)"
    by (simp add: run)
  show "events_since w (snd (cmdAdd E args w))
        = [EvNewStore (StoreBackend config) [Uri config]
             \<lparr>ConnectionTimeout = 10 * time_Second\<rparr>,
           EvGet (BasePath config @ ContainerID args),
           EvWriteFile (filepath_Join E stateDir (ContainerID args)) val,
           EvPrint None]"
    by (simp add: run events_since_def loop_start_def)
  show "files (snd (cmdAdd E args w)) (filepath_Join E stateDir (ContainerID args)) = Some val"
    by (simp add: run loop_start_def)
next
  assume "files w' (filepath_Join E stateDir (ContainerID args')) = Some val'
      \<and> json_Unmarshal_netconfs E val' = Inr []"
  then show "cmdDel E args' w'
      = (Done (), snd (os_Remove E (filepath_Join E stateDir (ContainerID args')) w'))"
    by (simp add: cmdDel_unfold ioutil_ReadFile_def)
qed

theorem empty_list_is_not_an_error_witness:
  "json_Unmarshal_netconfs doc_env ''[]'' = Inr []
   \<and> fst (cmdAdd doc_env (args_of ''empty'' libkv_conf_text) world0) = Done ()
   \<and> events_since world0 (snd (cmdAdd doc_env (args_of ''empty'' libkv_conf_text) world0))
       = [EvNewStore ''etcd'' [''localhost:2379''] \<lparr>ConnectionTimeout = 10 * time_Second\<rparr>,
          EvGet ''cni/empty'',
          EvWriteFile ''/var/lib/cni/libkv/empty'' ''[]'',
          EvPrint None]
   \<and> fst (cmdDel doc_env (args_of ''empty'' libkv_conf_text)
            (snd (cmdAdd doc_env (args_of ''empty'' libkv_conf_text) world0))) = Done ()"
proof -
  let ?args = "args_of ''empty'' libkv_conf_text"
  let ?config = "\<lparr>StoreBackend = ''etcd'', Uri = ''localhost:2379'', BasePath = ''cni/'',
            StoreConfig = [(''connectionTimeout'', ''30'')]\<rparr>"
  let ?w1 = "snd (cmdAdd doc_env ?args world0)"
  note C = empty_list_is_not_an_error
             [of doc_env ?args ?config etcd_contents "''[]''" world0 ?w1 ?args "''[]''"]
  have cid: "ContainerID ?args = ''empty''"
    by (simp add: args_of_def)
  have add: "fst (cmdAdd doc_env ?args world0) = Done ()
      \<and> events_since world0 ?w1
       = [EvNewStore ''etcd'' [''localhost:2379''] \<lparr>ConnectionTimeout = 10 * time_Second\<rparr>,
          EvGet ''cni/empty'',
          EvWriteFile ''/var/lib/cni/libkv/empty'' ''[]'',
          EvPrint None]
      \<and> files ?w1 (filepath_Join doc_env stateDir (ContainerID ?args)) = Some ''[]''"
    using C doc_fetch(1) [of "''empty''"] doc_fetch(2) doc_fetch(4)
    by (simp add: doc_env_calls cid stateDir_def)
  from add have "fst (cmdDel doc_env ?args ?w1) = Done ()"
    using C by (simp add: doc_env_calls)
  with add show ?thesis
    by (simp add: doc_env_calls)
qed

theorem empty_list_counterexample:
  "json_Unmarshal_netconfs doc_env ''[]'' = Inr []
   \<and> \<not> is_Failed (fst (cmdAdd doc_env (args_of ''empty'' libkv_conf_text) world0))
   \<and> files (snd (cmdAdd doc_env (args_of ''empty'' libkv_conf_text) world0))
       ''/var/lib/cni/libkv/empty'' = Some ''[]''
   \<and> fst (cmdDel doc_env (args_of ''empty'' libkv_conf_text)
            (snd (cmdAdd doc_env (args_of ''empty'' libkv_conf_text) world0))) = Done ()"
  by (simp add: run_defs)




text \<open>
  C4. When the parsed list is not empty and every attach delegation of the loop
  succeeds, the one value that setup hands to \<open>Print\<close> for the caller is the
  attach result of the first entry of the list, whatever the later entries
  returned, and setup returns what \<open>Print\<close> returns for that value.
\<close>

theorem setup_returns_first_result:
  assumes "loadPluginConfig E (StdinData args) = Inr config"
    and "libkv_NewStore E (StoreBackend config) [Uri config]
           \<lparr>ConnectionTimeout = 10 * time_Second\<rparr> = Inr kv"
    and "store_Get E kv (BasePath config @ ContainerID args) = Inr val"
    and "json_Unmarshal_netconfs E val = Inr (conf0 # rest)"
    and "os_MkdirAll E stateDir perm_0700 = None"
    and "WriteFile_fault E (filepath_Join E stateDir (ContainerID args)) val perm_0600 = None"
    and first: "json_Marshal E conf0 = Inr b0" "conf_type conf0 = Some t0"
      "invoke_DelegateAdd E t0 b0 (host w) = (Inr res0, h)"
    and all_succeed:
      "is_Done (fst (cmdAdd_loop E 0 (conf0 # rest) None (loop_start E args config val w)))"
  shows "printed (events_since w (snd (cmdAdd E args w))) = [Some res0]
       \<and> fst (cmdAdd E args w)
           = (case Result_Print E (Some res0) of None \<Rightarrow> Done () | Some err \<Rightarrow> Failed err)"
proof -
  let ?w3 = "loop_start E args config val w"
  from all_succeed obtain r' w4 where
    loop: "cmdAdd_loop E 0 (conf0 # rest) None ?w3 = (Done r', w4)"
    by (cases "cmdAdd_loop E 0 (conf0 # rest) None ?w3") (auto simp: is_Done_def)
  have "host ?w3 = host w"
    by (simp add: loop_start_def)
  with first(3) have "invoke_DelegateAdd E t0 b0 (host ?w3) = (Inr res0, h)"
    by simp
  from cmdAdd_loop_first [OF first(1,2) this loop] have r': "r' = Some res0" .
  from cmdAdd_loop_events [OF loop] obtain ds where
    ds: "trace w4 = trace ?w3 @ ds" "list_all is_EvDelegateAdd ds"
    by blast
  have run: "cmdAdd E args w =
      (case Result_Print E (Some res0) of None \<Rightarrow> Done () | Some err \<Rightarrow> Failed err,
       w4\<lparr>trace := trace w4 @ [EvPrint (Some res0)]\<rparr>)"
    using cmdAdd_saved [OF assms(1-6), of w] loop r' by simp
  have "events_since w (snd (cmdAdd E args w)) =
      [EvNewStore (StoreBackend config) [Uri config] \<lparr>ConnectionTimeout = 10 * time_Second\<rparr>,
       EvGet (BasePath config @ ContainerID args),
       EvWriteFile (filepath_Join E stateDir (ContainerID args)) val] @ ds @ [EvPrint (Some res0)]"
    by (simp add: run ds(1) events_since_def loop_start_def)
  moreover have "printed ds = []"
    using added_types_only_adds [OF ds(2)] by simp
  ultimately show ?thesis
    using run by (simp add: printed_append)
qed

theorem setup_returns_first_result_witness:
  "json_Unmarshal_netconfs doc_env netconfs_text = Inr [bridge_conf, loopback_conf]
   \<and> invoke_DelegateAdd doc_env ''bridge'' ''{type:bridge}'' (host world0)
       = (Inr ''result of bridge'', [''bridge''])
   \<and> is_Done (fst (cmdAdd_loop doc_env 0 [bridge_conf, loopback_conf] None
       (loop_start doc_env (args_of ''testcontainer'' libkv_conf_text)
          \<lparr>StoreBackend = ''etcd'', Uri = ''localhost:2379'', BasePath = ''cni/'',
            StoreConfig = [(''connectionTimeout'', ''30'')]\<rparr> netconfs_text world0)))
   \<and> printed (events_since world0
        (snd (cmdAdd doc_env (args_of ''testcontainer'' libkv_conf_text) world0)))
       = [Some ''result of bridge'']
   \<and> fst (cmdAdd doc_env (args_of ''testcontainer'' libkv_conf_text) world0) = Done ()"
proof -
  from setup_returns_first_result
         [OF doc_fetch(1) doc_fetch(2) doc_fetch(3) doc_env_calls(5) doc_env_calls(13)
             doc_env_calls(14) doc_loop_run(1) doc_loop_run(2) doc_loop_run(3) doc_loop_run(4)]
  have "printed (events_since world0
          (snd (cmdAdd doc_env (args_of ''testcontainer'' libkv_conf_text) world0)))
         = [Some ''result of bridge'']
      \<and> fst (cmdAdd doc_env (args_of ''testcontainer'' libkv_conf_text) world0) = Done ()"
    by (simp add: doc_env_calls)
  with doc_env_calls(5) doc_loop_run(3) doc_loop_run(4) show ?thesis
    by blast
qed

text \<open>
  C5. The bytes fetched from the store and persisted at setup are the bytes that
  teardown reads back: when setup has fetched \<open>val\<close>, parsed it and the host has
  not refused the write, then in the world that \<open>cmdAdd\<close> leaves behind, however
  its delegations ended, \<open>consumeScratchNetConf\<close> for the same container
  identifier returns exactly \<open>val\<close>.
\<close>

theorem scratch_round_trip:
  assumes "loadPluginConfig E (StdinData args) = Inr config"
    and "libkv_NewStore E (StoreBackend config) [Uri config]
           \<lparr>ConnectionTimeout = 10 * time_Second\<rparr> = Inr kv"
    and "store_Get E kv (BasePath config @ ContainerID args) = Inr val"
    and "json_Unmarshal_netconfs E val = Inr L"
    and "os_MkdirAll E stateDir perm_0700 = None"
    and "WriteFile_fault E (filepath_Join E stateDir (ContainerID args)) val perm_0600 = None"
  shows "fst (consumeScratchNetConf E (ContainerID args) (snd (cmdAdd E args w))) = Inr val"
proof -
  let ?p = "filepath_Join E stateDir (ContainerID args)"
  obtain out4 w4 where loop:
    "cmdAdd_loop E 0 L None (loop_start E args config val w) = (out4, w4)"
    by (cases "cmdAdd_loop E 0 L None (loop_start E args config val w)")
  have "files w4 = files (loop_start E args config val w)"
    using cmdAdd_loop_files [of E 0 L None "loop_start E args config val w"] loop by simp
  then have "files w4 ?p = Some val"
    by (simp add: loop_start_def)
  moreover have "files (snd (cmdAdd E args w)) = files w4"
    using cmdAdd_saved [OF assms, of w] loop
    by (simp split: outcome.splits)
  ultimately show ?thesis
    by (simp add: consumeScratchNetConf_parts ioutil_ReadFile_def)
qed

theorem scratch_round_trip_witness:
  "loadPluginConfig doc_env (StdinData (args_of ''testcontainer'' libkv_conf_text))
     = Inr \<lparr>StoreBackend = ''etcd'', Uri = ''localhost:2379'', BasePath = ''cni/'',
            StoreConfig = [(''connectionTimeout'', ''30'')]\<rparr>
   \<and> store_Get doc_env etcd_contents ''cni/testcontainer'' = Inr netconfs_text
   \<and> json_Unmarshal_netconfs doc_env netconfs_text = Inr [bridge_conf, loopback_conf]
   \<and> fst (consumeScratchNetConf doc_env ''testcontainer''
            (snd (cmdAdd doc_env (args_of ''testcontainer'' libkv_conf_text) world0)))
       = Inr netconfs_text"
proof -
  let ?args = "args_of ''testcontainer'' libkv_conf_text"
  let ?config = "\<lparr>StoreBackend = ''etcd'', Uri = ''localhost:2379'', BasePath = ''cni/'',
            StoreConfig = [(''connectionTimeout'', ''30'')]\<rparr>"
  have 1: "loadPluginConfig doc_env (StdinData ?args) = Inr ?config"
    by (simp add: loadPluginConfig_def args_of_def doc_env_calls strings_HasSuffix_def)
  have 2: "libkv_NewStore doc_env (StoreBackend ?config) [Uri ?config]
           \<lparr>ConnectionTimeout = 10 * time_Second\<rparr> = Inr etcd_contents"
    by (simp add: doc_env_calls)
  have 3: "store_Get doc_env etcd_contents (BasePath ?config @ ContainerID ?args)
             = Inr netconfs_text"
    by (simp add: doc_env_calls args_of_def)
  have 4: "json_Unmarshal_netconfs doc_env netconfs_text = Inr [bridge_conf, loopback_conf]"
    by (simp add: doc_env_calls)
  have 5: "os_MkdirAll doc_env stateDir perm_0700 = None"
    by (simp add: doc_env_calls)
  have 6: "WriteFile_fault doc_env (filepath_Join doc_env stateDir (ContainerID ?args))
             netconfs_text perm_0600 = None"
    by (simp add: doc_env_calls)
  from scratch_round_trip [OF 1 2 3 4 5 6, of world0] 1 3 4 show ?thesis
    by (simp add: args_of_def)
qed

text \<open>
  C6, as the code has it. Teardown asks for the removal of the scratch record as
  part of its read, whatever the read, the parse and the detach delegations do
  afterwards, and discards what \<open>os.Remove\<close> returns. When the host does not
  refuse the removal, the record is absent in the world that \<open>cmdDel\<close> leaves
  behind, and a second teardown for the same container identifier fails with
  the error of a file that does not exist. When the host refuses the removal,
  the scratch files are as they were: a record that was there is still there,
  and the read of a second teardown returns it again.
\<close>

theorem teardown_removes_unless_refused:
  assumes "ContainerID args' = ContainerID args"
  shows "(Remove_fault E (filepath_Join E stateDir (ContainerID args)) = None \<longrightarrow>
            files (snd (cmdDel E args w)) (filepath_Join E stateDir (ContainerID args)) = None)
       \<and> (Remove_fault E (filepath_Join E stateDir (ContainerID args)) = None
          \<and> ReadFile_fault E (filepath_Join E stateDir (ContainerID args)) = None \<longrightarrow>
            fst (cmdDel E args' (snd (cmdDel E args w)))
              = Failed (not_exist (filepath_Join E stateDir (ContainerID args))))
       \<and> (Remove_fault E (filepath_Join E stateDir (ContainerID args)) = Some err
          \<and> files w (filepath_Join E stateDir (ContainerID args)) = Some val \<longrightarrow>
            files (snd (cmdDel E args w)) = files w
            \<and> fst (consumeScratchNetConf E (ContainerID args') (snd (cmdDel E args w)))
                = Inr val)"
proof -
  let ?p = "filepath_Join E stateDir (ContainerID args)"
  let ?w1 = "snd (cmdDel E args w)"
  have removed: "files ?w1 ?p = None" if "Remove_fault E ?p = None"
    using that by (simp add: cmdDel_files os_Remove_world)
  have second: "fst (cmdDel E args' ?w1) = Failed (not_exist ?p)"
    if "Remove_fault E ?p = None \<and> ReadFile_fault E ?p = None"
  proof -
    from that removed assms
    have gone: "files ?w1 (filepath_Join E stateDir (ContainerID args')) = None"
      and nothing_else: "ReadFile_fault E (filepath_Join E stateDir (ContainerID args')) = None"
      by simp_all
    from cmdDel_absent [OF gone nothing_else] assms show ?thesis
      by simp
  qed
  have refused: "files ?w1 = files w
      \<and> fst (consumeScratchNetConf E (ContainerID args') ?w1) = Inr val"
    if "Remove_fault E ?p = Some err \<and> files w ?p = Some val"
  proof -
    from that have same: "files ?w1 = files w"
      by (simp add: cmdDel_files os_Remove_world)
    with that assms show ?thesis
      by (simp add: consumeScratchNetConf_parts ioutil_ReadFile_def)
  qed
  from removed second refused show ?thesis
    by blast
qed

theorem teardown_removes_unless_refused_witness:
  "ContainerID (args_of ''testcontainer'' []) = ContainerID (args_of ''testcontainer'' libkv_conf_text)
   \<and> Remove_fault doc_env ''/var/lib/cni/libkv/testcontainer'' = None
   \<and> ReadFile_fault doc_env ''/var/lib/cni/libkv/testcontainer'' = None
   \<and> fst (cmdDel doc_env (args_of ''testcontainer'' libkv_conf_text)
            (snd (cmdAdd doc_env (args_of ''testcontainer'' libkv_conf_text) world0))) = Done ()
   \<and> fst (cmdDel doc_env (args_of ''testcontainer'' [])
        (snd (cmdDel doc_env (args_of ''testcontainer'' libkv_conf_text)
               (snd (cmdAdd doc_env (args_of ''testcontainer'' libkv_conf_text) world0)))))
      = Failed (Error ''open /var/lib/cni/libkv/testcontainer: no such file or directory'')
   \<and> Remove_fault readonly_env ''/var/lib/cni/libkv/testcontainer''
       = Some (Error ''remove /var/lib/cni/libkv/testcontainer: read-only file system'')
   \<and> fst (consumeScratchNetConf readonly_env ''testcontainer''
        (snd (cmdDel readonly_env (args_of ''testcontainer'' libkv_conf_text)
               (snd (cmdAdd doc_env (args_of ''testcontainer'' libkv_conf_text) world0)))))
      = Inr netconfs_text"
proof -
  let ?args = "args_of ''testcontainer'' libkv_conf_text"
  let ?args' = "args_of ''testcontainer'' []"
  let ?p = "''/var/lib/cni/libkv/testcontainer''"
  let ?w1 = "snd (cmdAdd doc_env ?args world0)"
  have same: "ContainerID ?args' = ContainerID ?args"
    and cid: "ContainerID ?args = ''testcontainer''" "ContainerID ?args' = ''testcontainer''"
    by (simp_all add: args_of_def)
  have path: "filepath_Join doc_env stateDir ''testcontainer'' = ?p"
    "filepath_Join readonly_env stateDir ''testcontainer'' = ?p"
    by (simp_all add: readonly_env_def doc_env_calls stateDir_def)
  have faults: "Remove_fault doc_env ?p = None" "ReadFile_fault doc_env ?p = None"
    "Remove_fault readonly_env ?p
       = Some (Error ''remove /var/lib/cni/libkv/testcontainer: read-only file system'')"
    by (simp_all add: readonly_env_def doc_env_calls stateDir_def)
  have first: "fst (cmdDel doc_env ?args ?w1) = Done ()"
    by (rule doc_teardown_run(1))
  have "fst (cmdDel doc_env ?args' (snd (cmdDel doc_env ?args ?w1)))
          = Failed (not_exist ?p)"
    using teardown_removes_unless_refused [OF same, where E = doc_env and w = ?w1] faults(1,2)
    by (simp add: cid path)
  then have second: "fst (cmdDel doc_env ?args' (snd (cmdDel doc_env ?args ?w1)))
      = Failed (Error ''open /var/lib/cni/libkv/testcontainer: no such file or directory'')"
    by (simp add: not_exist_def)
  have again: "fst (consumeScratchNetConf readonly_env ''testcontainer''
        (snd (cmdDel readonly_env ?args ?w1))) = Inr netconfs_text"
    using teardown_removes_unless_refused
            [OF same, where E = readonly_env and val = netconfs_text and w = ?w1]
      faults(3) doc_setup_run(3)
    by (simp add: cid path)
  from same faults first second again show ?thesis
    by blast
qed

theorem teardown_sees_record_again_counterexample:
  "fst (cmdDel readonly_env (args_of ''testcontainer'' libkv_conf_text)
          (snd (cmdAdd doc_env (args_of ''testcontainer'' libkv_conf_text) world0))) = Done ()
   \<and> files (snd (cmdDel readonly_env (args_of ''testcontainer'' libkv_conf_text)
          (snd (cmdAdd doc_env (args_of ''testcontainer'' libkv_conf_text) world0))))
        ''/var/lib/cni/libkv/testcontainer'' = Some netconfs_text
   \<and> fst (cmdDel readonly_env (args_of ''testcontainer'' libkv_conf_text)
          (snd (cmdDel readonly_env (args_of ''testcontainer'' libkv_conf_text)
             (snd (cmdAdd doc_env (args_of ''testcontainer'' libkv_conf_text) world0)))))
       = Done ()"
  by (simp add: run_defs readonly_env_def)

text \<open>
  C7, as the code has it. When the parsed list contains an entry whose \<open>type\<close>
  is missing or is not a string, setup never succeeds, and neither that entry
  nor any entry after it is delegated: the types invoked are a prefix of the
  types of the entries before it. When the entries before it have all been
  delegated successfully, setup ends at that entry in the run-time panic of the
  type assertion \<open>conf["type"].(string)\<close>, in the world those delegations have
  left; no error value is returned.
\<close>

theorem untyped_entry_panics:
  assumes "loadPluginConfig E (StdinData args) = Inr config"
    and "libkv_NewStore E (StoreBackend config) [Uri config]
           \<lparr>ConnectionTimeout = 10 * time_Second\<rparr> = Inr kv"
    and "store_Get E kv (BasePath config @ ContainerID args) = Inr val"
    and "json_Unmarshal_netconfs E val = Inr (pre @ bad # post)"
    and "os_MkdirAll E stateDir perm_0700 = None"
    and "WriteFile_fault E (filepath_Join E stateDir (ContainerID args)) val perm_0600 = None"
    and bad: "conf_type bad = None"
  shows "\<not> is_Done (fst (cmdAdd E args w))
       \<and> prefix (map Some (added_types (events_since w (snd (cmdAdd E args w)))))
                (map conf_type pre)
       \<and> (json_Marshal E bad = Inr b
          \<and> cmdAdd_loop E 0 pre None (loop_start E args config val w) = (Done r, w4)
          \<longrightarrow> cmdAdd E args w = (Panic, w4))"
proof (intro conjI impI)
  let ?evs = "events_since w (snd (cmdAdd E args w))"
  have run: "cmdAdd E args w = (fst (cmdAdd E args w), snd (cmdAdd E args w))"
    by simp
  note types = cmdAdd_added_types [OF assms(1-4) run]
  have L: "map conf_type (pre @ bad # post) = map conf_type pre @ None # map conf_type post"
    using bad by simp
  show "\<not> is_Done (fst (cmdAdd E args w))"
  proof
    assume "is_Done (fst (cmdAdd E args w))"
    then have "fst (cmdAdd E args w) = Done ()"
      by (cases "fst (cmdAdd E args w)") simp_all
    from types(2) [OF this]
    have "map Some (added_types ?evs) = map conf_type pre @ None # map conf_type post"
      by (simp only: L)
    then have "None \<in> set (map Some (added_types ?evs))"
      by (metis in_set_conv_decomp)
    then show False by auto
  qed
  show "prefix (map Some (added_types ?evs)) (map conf_type pre)"
    using types(1) unfolding L by (rule prefix_before_None)
next
  assume "json_Marshal E bad = Inr b
          \<and> cmdAdd_loop E 0 pre None (loop_start E args config val w) = (Done r, w4)"
  then have m: "json_Marshal E bad = Inr b"
    and loop: "cmdAdd_loop E 0 pre None (loop_start E args config val w) = (Done r, w4)"
    by simp_all
  have "cmdAdd_loop E 0 (pre @ bad # post) None (loop_start E args config val w)
          = cmdAdd_loop E (0 + length pre) (bad # post) r w4"
    by (rule cmdAdd_loop_append [OF loop])
  also have "\<dots> = (Panic, w4)"
    using m bad by simp
  finally show "cmdAdd E args w = (Panic, w4)"
    using cmdAdd_saved [OF assms(1-6), of w] by simp
qed

theorem untyped_entry_panics_witness:
  "json_Unmarshal_netconfs doc_env untyped_text
     = Inr ([Some [(''type'', GString ''bridge'')]] @ Some [(''name'', GString ''lo'')]
            # [loopback_conf])
   \<and> conf_type (Some [(''name'', GString ''lo'')]) = None
   \<and> fst (cmdAdd doc_env (args_of ''untyped'' libkv_conf_text) world0) = Panic
   \<and> added_types (trace (snd (cmdAdd doc_env (args_of ''untyped'' libkv_conf_text) world0)))
       = [''bridge'']"
proof -
  let ?args = "args_of ''untyped'' libkv_conf_text"
  let ?config = "\<lparr>StoreBackend = ''etcd'', Uri = ''localhost:2379'', BasePath = ''cni/'',
            StoreConfig = [(''connectionTimeout'', ''30'')]\<rparr>"
  let ?pre = "[Some [(''type'', GString ''bridge'')]] :: netconf list"
  let ?w3 = "loop_start doc_env ?args ?config untyped_text world0"
  let ?w4 = "snd (cmdAdd_loop doc_env 0 ?pre None ?w3)"
  have parse: "json_Unmarshal_netconfs doc_env untyped_text
     = Inr (?pre @ Some [(''name'', GString ''lo'')] # [loopback_conf])"
    by (simp add: doc_env_calls)
  have loop: "cmdAdd_loop doc_env 0 ?pre None ?w3 = (Done (Some ''result of bridge''), ?w4)"
    using doc_untyped_loop(3) by (simp add: prod_eq_iff)
  from untyped_entry_panics
         [OF doc_fetch(1) doc_fetch(2) doc_fetch(5) parse doc_env_calls(13) doc_env_calls(14)
             doc_untyped_loop(1),
           where b = "''{}''" and r = "Some ''result of bridge''" and ?w4.0 = ?w4 and w = world0]
       doc_untyped_loop(2) loop
  have "cmdAdd doc_env ?args world0 = (Panic, ?w4)"
    by blast
  with parse doc_untyped_loop(1) doc_untyped_loop(4) show ?thesis
    by simp
qed

theorem untyped_entry_counterexample:
  "json_Unmarshal_netconfs doc_env untyped_text
     = Inr [Some [(''type'', GString ''bridge'')], Some [(''name'', GString ''lo'')],
            loopback_conf]
   \<and> conf_type (Some [(''name'', GString ''lo'')]) = None
   \<and> fst (cmdAdd doc_env (args_of ''untyped'' libkv_conf_text) world0) = Panic
   \<and> \<not> is_Failed (fst (cmdAdd doc_env (args_of ''untyped'' libkv_conf_text) world0))"
  by (simp add: run_defs)



text \<open>
  C9. The documented configuration passes connection options in \<open>storeConfig\<close>.
  With \<open>storeConfig = {"connectionTimeout": "30"}\<close> loaded, \<open>cmdAdd\<close> still opens
  the store with a connection timeout of ten seconds: \<open>StoreConfig\<close> is never
  read, as the comment \<open>TODO pass in the storeConfig\<close> in \<open>cmdAdd\<close> says.
\<close>

theorem timeout_ignores_storeConfig:
  "loadPluginConfig doc_env (StdinData (args_of ''testcontainer'' libkv_conf_text))
     = Inr \<lparr>StoreBackend = ''etcd'', Uri = ''localhost:2379'', BasePath = ''cni/'',
            StoreConfig = [(''connectionTimeout'', ''30'')]\<rparr>
   \<and> hd (trace (snd (cmdAdd doc_env (args_of ''testcontainer'' libkv_conf_text) world0)))
       = EvNewStore ''etcd'' [''localhost:2379''] \<lparr>ConnectionTimeout = 10 * 1000000000\<rparr>"
  by (simp add: run_defs)

text \<open>
  C10. Loading the startup configuration fails exactly when \<open>json.Unmarshal\<close>
  rejects the payload. Nothing is validated: whatever struct the payload
  decodes to, empty backend, endpoint or prefix included, is returned with only
  its prefix normalised, and an empty prefix becomes \<open>/\<close>. A backend that the
  store library does not support is noticed when \<open>cmdAdd\<close> opens the store,
  where the process exits in \<open>log.Fatal\<close>.
\<close>

theorem load_validates_nothing:
  "(isl (loadPluginConfig E b) \<longleftrightarrow> isl (json_Unmarshal_LibKvConf E b))
   \<and> (json_Unmarshal_LibKvConf E b = Inr c \<longrightarrow>
        loadPluginConfig E b =
          Inr (c\<lparr>BasePath := (if suffix ''/'' (BasePath c) then BasePath c
                               else BasePath c @ ''/'')\<rparr>))
   \<and> (json_Unmarshal_LibKvConf E b = Inr c \<and> BasePath c = [] \<longrightarrow>
        loadPluginConfig E b = Inr (c\<lparr>BasePath := ''/''\<rparr>))
   \<and> (loadPluginConfig E (StdinData args) = Inr config \<and>
      libkv_NewStore E (StoreBackend config) [Uri config]
        \<lparr>ConnectionTimeout = 10 * time_Second\<rparr> = Inl err \<longrightarrow>
        fst (cmdAdd E args w) = Fatal (''Cannot create %s store'' @ StoreBackend config))"
proof (intro conjI impI)
  show "isl (loadPluginConfig E b) \<longleftrightarrow> isl (json_Unmarshal_LibKvConf E b)"
    by (simp add: loadPluginConfig_def split: sum.splits)
next
  assume "json_Unmarshal_LibKvConf E b = Inr c"
  then show "loadPluginConfig E b =
          Inr (c\<lparr>BasePath := (if suffix ''/'' (BasePath c) then BasePath c
                               else BasePath c @ ''/'')\<rparr>)"
    by (rule loadPluginConfig_Inr)
next
  assume "json_Unmarshal_LibKvConf E b = Inr c \<and> BasePath c = []"
  then show "loadPluginConfig E b = Inr (c\<lparr>BasePath := ''/''\<rparr>)"
    using loadPluginConfig_Inr [of E b c] by simp
next
  assume "loadPluginConfig E (StdinData args) = Inr config \<and>
      libkv_NewStore E (StoreBackend config) [Uri config]
        \<lparr>ConnectionTimeout = 10 * time_Second\<rparr> = Inl err"
  then show "fst (cmdAdd E args w) = Fatal (''Cannot create %s store'' @ StoreBackend config)"
    by (simp add: cmdAdd_def Let_def)
qed

theorem load_validates_nothing_witness:
  "isl (json_Unmarshal_LibKvConf doc_env ''{'')
   \<and> isl (loadPluginConfig doc_env ''{'')
   \<and> json_Unmarshal_LibKvConf doc_env ''{}''
       = Inr \<lparr>StoreBackend = [], Uri = [], BasePath = [], StoreConfig = []\<rparr>
   \<and> loadPluginConfig doc_env ''{}''
       = Inr \<lparr>StoreBackend = [], Uri = [], BasePath = ''/'', StoreConfig = []\<rparr>
   \<and> libkv_NewStore doc_env [] [[]] \<lparr>ConnectionTimeout = 10 * time_Second\<rparr>
       = Inl (Error ''Backend storage not supported yet, please choose one of'')
   \<and> fst (cmdAdd doc_env (args_of ''testcontainer'' ''{}'') world0)
       = Fatal ''Cannot create %s store''"
proof -
  let ?c = "\<lparr>StoreBackend = [], Uri = [], BasePath = [], StoreConfig = []\<rparr>"
  let ?config = "\<lparr>StoreBackend = [], Uri = [], BasePath = ''/'', StoreConfig = []\<rparr>"
  let ?err = "Error ''Backend storage not supported yet, please choose one of''"
  note C = load_validates_nothing
  have bad: "isl (json_Unmarshal_LibKvConf doc_env ''{'')"
    by (simp add: doc_env_calls)
  have ok: "json_Unmarshal_LibKvConf doc_env ''{}'' = Inr ?c"
    by (simp add: doc_env_calls)
  have "isl (loadPluginConfig doc_env ''{'')"
    using C [of doc_env "''{''"] bad by blast
  moreover have load: "loadPluginConfig doc_env ''{}'' = Inr ?config"
    using C [of doc_env "''{}''" ?c] ok by simp
  moreover have store: "libkv_NewStore doc_env [] [[]] \<lparr>ConnectionTimeout = 10 * time_Second\<rparr>
       = Inl ?err"
    by (simp add: doc_env_calls)
  moreover have "fst (cmdAdd doc_env (args_of ''testcontainer'' ''{}'') world0)
       = Fatal ''Cannot create %s store''"
    using C [of doc_env _ _ "args_of ''testcontainer'' ''{}''" ?config ?err world0] load store
    by (simp add: args_of_def)
  ultimately show ?thesis
    using bad ok by blast
qed

end
